theory Spec2Isabelle
  imports Complex_Main "HOL-Library.Sublist"
begin

section \<open>JavaScript values\<close>

text \<open>
  The proxy service (\<^verbatim>\<open>server/index.js\<close>) and the chat client
  (\<^verbatim>\<open>src/app/page.js\<close>) work on parsed JSON. A value is one of the JSON
  shapes or \<^verbatim>\<open>undefined\<close> (a property that is absent).

  \<^item> Numbers are integers: \<^verbatim>\<open>historyLimit\<close> is documented by the service as
    \<^verbatim>\<open>integer (optional, default: 10)\<close>; fractions and doubles are outside the model.
  \<^item> A string is a list of characters, one \<open>char\<close> for each code unit below 256.
  \<^item> An object is the list of its properties; a property is read by its first entry.
\<close>

datatype json
  = JUndefined
  | JNull
  | JBool bool
  | JNum int
  | JStr string
  | JArr "json list"
  | JObj "(string \<times> json) list"

text \<open>\<^verbatim>\<open>v.name\<close> on a value that is neither \<^verbatim>\<open>null\<close> nor \<^verbatim>\<open>undefined\<close>
  (reading a property of those throws a TypeError, see \<open>nullish\<close>).
  Arrays and strings carry \<^verbatim>\<open>length\<close>; every other name read here
  (\<^verbatim>\<open>message\<close>, \<^verbatim>\<open>history\<close>, \<^verbatim>\<open>historyLimit\<close>, \<^verbatim>\<open>prompt\<close>,
  \<^verbatim>\<open>role\<close>, \<^verbatim>\<open>text\<close>, \<^verbatim>\<open>output\<close>) is absent on them.\<close>

fun get_prop :: "json \<Rightarrow> string \<Rightarrow> json" where
  "get_prop (JObj kvs) name = (case map_of kvs name of None \<Rightarrow> JUndefined | Some v \<Rightarrow> v)"
| "get_prop (JArr xs) name = (if name = ''length'' then JNum (int (length xs)) else JUndefined)"
| "get_prop (JStr s) name = (if name = ''length'' then JNum (int (length s)) else JUndefined)"
| "get_prop _ name = JUndefined"

fun nullish :: "json \<Rightarrow> bool" where
  "nullish JUndefined = True"
| "nullish JNull = True"
| "nullish _ = False"

text \<open>Truthiness, as \<^verbatim>\<open>!v\<close> and \<^verbatim>\<open>a || b\<close> use it.\<close>

fun truthy :: "json \<Rightarrow> bool" where
  "truthy JUndefined = False"
| "truthy JNull = False"
| "truthy (JBool b) = b"
| "truthy (JNum n) = (n \<noteq> 0)"
| "truthy (JStr s) = (s \<noteq> [])"
| "truthy (JArr _) = True"
| "truthy (JObj _) = True"

definition js_or :: "json \<Rightarrow> json \<Rightarrow> json" where
  "js_or a b = (if truthy a then a else b)"

text \<open>The default of a destructuring pattern (\<^verbatim>\<open>{ history = [] }\<close>) applies to
  \<^verbatim>\<open>undefined\<close> only.\<close>

definition with_default :: "json \<Rightarrow> json \<Rightarrow> json" where
  "with_default v d = (if v = JUndefined then d else v)"

text \<open>\<^verbatim>\<open>typeof v === "string"\<close> and \<^verbatim>\<open>typeof v === "object" && v !== null\<close>.\<close>

fun is_string :: "json \<Rightarrow> bool" where
  "is_string (JStr _) = True"
| "is_string _ = False"

fun is_object :: "json \<Rightarrow> bool" where
  "is_object (JArr _) = True"
| "is_object (JObj _) = True"
| "is_object _ = False"

text \<open>\<^verbatim>\<open>String.prototype.trim\<close>: the white space and line terminators among the
  code units below 256 are tab, line feed, vertical tab, form feed, carriage return,
  space and the no-break space.\<close>

definition is_ws :: "char \<Rightarrow> bool" where
  "is_ws c = (of_char c \<in> {9, 10, 11, 12, 13, 32, 160 :: nat})"

definition trim :: "string \<Rightarrow> string" where
  "trim s = rev (dropWhile is_ws (rev (dropWhile is_ws s)))"

text \<open>\<^verbatim>\<open>typeof v !== "string" || v.trim() === ""\<close> is \<open>\<not> nonblank_string v\<close>.\<close>

fun nonblank_string :: "json \<Rightarrow> bool" where
  "nonblank_string (JStr s) = (trim s \<noteq> [])"
| "nonblank_string _ = False"

text \<open>\<^verbatim>\<open>xs.slice(start)\<close> for an integer \<open>start\<close>: a negative start counts from
  the end and is clamped at 0, a positive one is clamped at the length.\<close>

definition slice :: "int \<Rightarrow> 'a list \<Rightarrow> 'a list" where
  "slice start xs =
     (let len = int (length xs);
          k = (if start < 0 then max (len + start) 0 else min start len)
      in drop (nat k) xs)"

text \<open>The integer that \<^verbatim>\<open>slice\<close> gets from \<^verbatim>\<open>-historyLimit\<close>. A number is negated;
  \<^verbatim>\<open>null\<close> and \<^verbatim>\<open>false\<close> become 0 and \<^verbatim>\<open>true\<close> becomes 1 before the negation.
  The conversion of strings, arrays and objects to numbers is outside the model
  (\<open>None\<close>).\<close>

fun neg_limit :: "json \<Rightarrow> int option" where
  "neg_limit (JNum n) = Some (- n)"
| "neg_limit JNull = Some 0"
| "neg_limit (JBool b) = Some (if b then - 1 else 0)"
| "neg_limit _ = None"

section \<open>The external generative API\<close>

text \<open>What the service hands to the SDK. A part of a content is \<^verbatim>\<open>{ text }\<close> or
  \<^verbatim>\<open>{ inlineData: { data, mimeType } }\<close>; the data is the base64 text of a buffer,
  kept as the buffer it encodes.\<close>

datatype encoded = Base64 string

datatype part = TextPart json | InlinePart encoded json

record content =
  role :: json
  parts :: "part list"

record gen_request =
  gen_model :: string
  gen_temperature :: "rat option"
  gen_contents :: "part list"

text \<open>\<^verbatim>\<open>genAI.chats.create({ model, history })\<close> followed by
  \<^verbatim>\<open>chat.sendMessage({ message })\<close> is one exchange with the API.\<close>

record chat_request =
  chat_model :: string
  chat_history :: "content list"
  chat_message :: json

datatype api_call = GenerateContent gen_request | ChatSend chat_request

text \<open>The API answers a call with a result whose \<^verbatim>\<open>text\<close> property is the given
  value, or throws an error object whose \<^verbatim>\<open>message\<close> property is the given value.\<close>

datatype api_result = Returns json | Throws json

type_synonym upstream = "api_call \<Rightarrow> api_result"

definition model :: string where
  "model = ''gemini-2.0-flash''"

section \<open>The proxy service\<close>

text \<open>What a handler does, in the order it does it: file system operations, calls of
  the external API, the response \<^verbatim>\<open>res.status(code).json(body)\<close> (status 200 when
  the handler sets none), and an exception that leaves the handler uncaught, after which
  the handler sends nothing.\<close>

datatype js_error = TypeError | ENOENT

datatype event
  = FsRead string
  | FsUnlink string
  | Call api_call
  | Send nat json
  | Uncaught js_error

definition error_body :: "json \<Rightarrow> json" where
  "error_body m = JObj [(''error'', m)]"

definition output_body :: "json \<Rightarrow> json" where
  "output_body t = JObj [(''output'', t)]"

subsection \<open>POST /generate-text\<close>

definition generate_text :: "upstream \<Rightarrow> json \<Rightarrow> event list" where
  "generate_text api body =
     (if \<not> truthy body then [Send 400 (error_body (JStr ''No body provided''))]
      else
        let prompt = get_prop body ''prompt'' in
        if \<not> truthy prompt then [Send 400 (error_body (JStr ''Prompt is required''))]
        else
          let call = GenerateContent
                \<lparr>gen_model = model, gen_temperature = Some (1 / 2),
                 gen_contents = [TextPart prompt]\<rparr>
          in [Call call,
              (case api call of
                 Returns t \<Rightarrow> Send 200 (output_body t)
               | Throws m \<Rightarrow> Send 500 (error_body m))])"

subsection \<open>POST /chat\<close>

text \<open>The callback of \<^verbatim>\<open>history.every\<close>.\<close>

definition valid_entry :: "json \<Rightarrow> bool" where
  "valid_entry msg =
     (is_object msg \<and>
      (get_prop msg ''role'' = JStr ''user'' \<or> get_prop msg ''role'' = JStr ''model'') \<and>
      is_string (get_prop msg ''text'') \<and>
      nonblank_string (get_prop msg ''text''))"

definition isValidHistory :: "json \<Rightarrow> bool" where
  "isValidHistory history =
     (case history of JArr xs \<Rightarrow> list_all valid_entry xs | _ \<Rightarrow> False)"

text \<open>The callback of \<^verbatim>\<open>recentHistory.map\<close>.\<close>

definition formatted :: "json \<Rightarrow> content" where
  "formatted msg = \<lparr>role = get_prop msg ''role'', parts = [TextPart (get_prop msg ''text'')]\<rparr>"

definition invalid_history_text :: string where
  "invalid_history_text =
     ''Invalid history format. Each message must be an object with '' @
     [CHR 0x27] @ ''role'' @ [CHR 0x27] @ '' ('' @ [CHR 0x27] @ ''user'' @ [CHR 0x27] @
     '' or '' @ [CHR 0x27] @ ''model'' @ [CHR 0x27] @ '') and non-empty '' @
     [CHR 0x27] @ ''text'' @ [CHR 0x27] @ ''.''"

text \<open>The handler on the parsed body. The result is \<open>None\<close> where the request leaves
  the model: a \<^verbatim>\<open>history\<close> that is present and not an array (its \<^verbatim>\<open>length\<close> and
  \<^verbatim>\<open>slice\<close> are then those of another type), or a \<^verbatim>\<open>historyLimit\<close> whose
  conversion to a number is not modelled, once the handler reaches the place that
  needs it. Destructuring a body that is \<^verbatim>\<open>null\<close> or \<^verbatim>\<open>undefined\<close> throws
  before the \<^verbatim>\<open>try\<close>.\<close>

definition chat :: "upstream \<Rightarrow> json \<Rightarrow> event list option" where
  "chat api body =
     (if nullish body then Some [Uncaught TypeError]
      else
        let message = get_prop body ''message'';
            history = with_default (get_prop body ''history'') (JArr []);
            historyLimit = with_default (get_prop body ''historyLimit'') (JNum 10)
        in
        if \<not> nonblank_string message then
          Some [Send 400 (error_body (JStr ''Message is required and must be a non-empty string.''))]
        else
          (case history of
             JArr xs \<Rightarrow>
               if \<not> isValidHistory history \<and> length xs > 0 then
                 Some [Send 400 (error_body (JStr invalid_history_text))]
               else
                 (case neg_limit historyLimit of
                    None \<Rightarrow> None
                  | Some start \<Rightarrow>
                      let recentHistory = slice start xs;
                          formattedHistory = map formatted recentHistory;
                          call = ChatSend
                            \<lparr>chat_model = model, chat_history = formattedHistory,
                             chat_message = message\<rparr>
                      in Some [Call call,
                               (case api call of
                                  Returns t \<Rightarrow> Send 200 (output_body t)
                                | Throws m \<Rightarrow>
                                    Send 500 (error_body (js_or m (JStr ''Internal Server Error''))))])
           | _ \<Rightarrow> None))"

text \<open>The history of the call a run of the handler makes, if it makes one.\<close>

fun forwarded :: "event list \<Rightarrow> content list option" where
  "forwarded [] = None"
| "forwarded (Call (ChatSend r) # es) = Some (chat_history r)"
| "forwarded (e # es) = forwarded es"

subsection \<open>The attachment endpoints\<close>

text \<open>The file \<^verbatim>\<open>multer\<close> stored for the request, as \<^verbatim>\<open>req.file\<close> gives it
  (\<open>None\<close> when the request carries no file), and the upload directory as a map from
  paths to contents.\<close>

record upload =
  path :: string
  mimetype :: json

record file_request =
  req_body :: json
  req_file :: "upload option"

type_synonym files = "string \<rightharpoonup> string"

text \<open>\<^verbatim>\<open>fs.unlinkSync\<close> removes the file or throws; the callback it is handed is
  never used.\<close>

definition deleteUploadedFile :: "files \<Rightarrow> string \<Rightarrow> js_error + files" where
  "deleteUploadedFile fs filePath =
     (case fs filePath of None \<Rightarrow> Inl ENOENT | Some _ \<Rightarrow> Inr (fs(filePath := None)))"

text \<open>The three handlers are one text up to the default prompt, the fallback MIME type
  and the message of the check for a missing file; the statements before the
  \<^verbatim>\<open>try\<close> run in the order below (the base64 conversion, before or after the
  deletion, has no effect of its own). Reading \<^verbatim>\<open>req.body.prompt\<close>,
  \<^verbatim>\<open>req.file.path\<close> or a file that is not there throws outside the \<^verbatim>\<open>try\<close>.\<close>

definition generate_from_file ::
    "string \<Rightarrow> string \<Rightarrow> string \<Rightarrow> upstream \<Rightarrow> files \<Rightarrow> file_request \<Rightarrow> event list \<times> files" where
  "generate_from_file default_prompt default_mime no_file_text api fs req =
     (if nullish (req_body req) then ([Uncaught TypeError], fs)
      else
        let prompt = js_or (get_prop (req_body req) ''prompt'') (JStr default_prompt) in
        case req_file req of
          None \<Rightarrow> ([Uncaught TypeError], fs)
        | Some file \<Rightarrow>
            (case fs (path file) of
               None \<Rightarrow> ([Uncaught ENOENT], fs)
             | Some buffer \<Rightarrow>
                 (case deleteUploadedFile fs (path file) of
                    Inl e \<Rightarrow> ([FsRead (path file), Uncaught e], fs)
                  | Inr fs' \<Rightarrow>
                      let base64Data = Base64 buffer;
                          mimeType = js_or (mimetype file) (JStr default_mime);
                          filePart = InlinePart base64Data mimeType;
                          so_far = [FsRead (path file), FsUnlink (path file)]
                      in
                      if req_file req = None then
                        (so_far @ [Send 400 (error_body (JStr no_file_text))], fs')
                      else
                        let call = GenerateContent
                              \<lparr>gen_model = model, gen_temperature = None,
                               gen_contents = [TextPart prompt, filePart]\<rparr>
                        in (so_far @
                            [Call call,
                             (case api call of
                                Returns t \<Rightarrow> Send 200 (output_body t)
                              | Throws m \<Rightarrow> Send 500 (error_body m))], fs'))))"

definition generate_from_image :: "upstream \<Rightarrow> files \<Rightarrow> file_request \<Rightarrow> event list \<times> files" where
  "generate_from_image =
     generate_from_file ''Describe the image'' ''image/png'' ''No image file provided''"

definition generate_from_document :: "upstream \<Rightarrow> files \<Rightarrow> file_request \<Rightarrow> event list \<times> files" where
  "generate_from_document =
     generate_from_file ''Summarize the document'' ''application/pdf'' ''No document file provided''"

definition generate_from_audio :: "upstream \<Rightarrow> files \<Rightarrow> file_request \<Rightarrow> event list \<times> files" where
  "generate_from_audio =
     generate_from_file ''Transcribe the audio'' ''audio/mpeg'' ''No audio file provided''"

fun is_send_400 :: "event \<Rightarrow> bool" where
  "is_send_400 (Send code _) = (code = 400)"
| "is_send_400 _ = False"

section \<open>The chat client\<close>

text \<open>A message of the conversation, \<^verbatim>\<open>{ sender, text }\<close>. The state of the page:
  the two \<^verbatim>\<open>useState\<close> cells, the local-storage entry
  \<^verbatim>\<open>gemini-chat-history\<close> (\<open>None\<close> when there is no entry; the entry is the
  message list that \<^verbatim>\<open>JSON.parse\<close> reads back from it), and the body of the request
  that is under way, if one is.\<close>

record message =
  msg_sender :: string
  msg_text :: json

record client =
  messages :: "message list"
  isLoading :: bool
  storage :: "message list option"
  inflight :: "json option"

text \<open>The effect on \<^verbatim>\<open>[messages]\<close>: it runs after the first render and after every
  \<^verbatim>\<open>setMessages\<close>.\<close>

definition save_effect :: "client \<Rightarrow> client" where
  "save_effect s = s\<lparr>storage := Some (messages s)\<rparr>"

text \<open>Loading the page over a given local storage: the first render shows no message;
  the first effect reads the entry, the second one saves the empty list, and the
  \<^verbatim>\<open>setMessages\<close> of the first effect, if it found an entry, renders and saves
  again.\<close>

definition mount :: "message list option \<Rightarrow> client" where
  "mount stored =
     (let s0 = \<lparr>messages = [], isLoading = False, storage = stored, inflight = None\<rparr>;
          savedMessages = storage s0;
          s1 = save_effect s0
      in case savedMessages of
           None \<Rightarrow> s1
         | Some ms \<Rightarrow> save_effect (s1\<lparr>messages := ms\<rparr>))"

definition history_entry :: "message \<Rightarrow> json" where
  "history_entry msg = JObj [(''role'', JStr (msg_sender msg)), (''text'', msg_text msg)]"

definition request_body :: "string \<Rightarrow> json list \<Rightarrow> json" where
  "request_body userMessage history =
     JObj [(''message'', JStr userMessage), (''history'', JArr history), (''historyLimit'', JNum 10)]"

text \<open>\<^verbatim>\<open>handleSubmit\<close> up to the \<^verbatim>\<open>await fetch\<close>: the request is on its way.\<close>

definition handleSubmit_send :: "client \<Rightarrow> string \<Rightarrow> client" where
  "handleSubmit_send s inputValue =
     (let userMessage = trim inputValue in
      if userMessage = [] then s
      else
        let messagesForHistory = messages s;
            s1 = save_effect
                   (s\<lparr>messages := messages s @ [\<lparr>msg_sender = ''user'', msg_text = JStr userMessage\<rparr>],
                      isLoading := True\<rparr>);
            history = map history_entry messagesForHistory
        in s1\<lparr>inflight := Some (request_body userMessage history)\<rparr>)"

text \<open>How the \<^verbatim>\<open>fetch\<close> ends: it rejects, or it resolves to a response with its
  \<^verbatim>\<open>ok\<close> flag and the value \<^verbatim>\<open>response.json()\<close> parses (\<open>None\<close> when
  that rejects).\<close>

datatype fetch_result = NetworkError | Response bool "json option"

datatype thrown = FetchFailed | ServerError | JsonSyntaxError

text \<open>How a block ends, with the state it leaves.\<close>

datatype completion = Normal client | Throw thrown client

fun state_of :: "completion \<Rightarrow> client" where
  "state_of (Normal s) = s"
| "state_of (Throw e s) = s"

definition append_message :: "client \<Rightarrow> message \<Rightarrow> client" where
  "append_message s m = save_effect (s\<lparr>messages := messages s @ [m]\<rparr>)"

definition try_block :: "client \<Rightarrow> fetch_result \<Rightarrow> completion" where
  "try_block s r =
     (case r of
        NetworkError \<Rightarrow> Throw FetchFailed s
      | Response ok parsed \<Rightarrow>
          if \<not> ok then Throw ServerError s
          else
            (case parsed of
               None \<Rightarrow> Throw JsonSyntaxError s
             | Some data \<Rightarrow>
                 let botReply = js_or (if nullish data then JUndefined else get_prop data ''output'')
                                      (JStr ''No response from Gemini.'')
                 in Normal (append_message s \<lparr>msg_sender = ''model'', msg_text = botReply\<rparr>)))"

definition placeholder :: message where
  "placeholder = \<lparr>msg_sender = ''model'', msg_text = JStr ''Failed to fetch response. Please try again.''\<rparr>"

fun catch_block :: "completion \<Rightarrow> completion" where
  "catch_block (Throw error s) = Normal (append_message s placeholder)"
| "catch_block (Normal s) = Normal s"

fun finally_block :: "completion \<Rightarrow> completion" where
  "finally_block (Normal s) = Normal (s\<lparr>isLoading := False, inflight := None\<rparr>)"
| "finally_block (Throw e s) = Throw e (s\<lparr>isLoading := False, inflight := None\<rparr>)"

text \<open>\<^verbatim>\<open>handleSubmit\<close> from the moment the \<^verbatim>\<open>fetch\<close> ends; the functional
  updates \<^verbatim>\<open>setMessages((prev) => ...)\<close> work on the state of that moment.\<close>

definition handleSubmit_settle :: "client \<Rightarrow> fetch_result \<Rightarrow> completion" where
  "handleSubmit_settle s r = finally_block (catch_block (try_block s r))"

text \<open>The Clear Chat button: \<^verbatim>\<open>setMessages([])\<close>, \<^verbatim>\<open>removeItem\<close>, and the
  effect of the render that follows.\<close>

definition clear_chat :: "client \<Rightarrow> client" where
  "clear_chat s = save_effect (s\<lparr>messages := [], storage := None\<rparr>)"

text \<open>The states of a session. The form is disabled while \<^verbatim>\<open>isLoading\<close>; the
  Clear Chat button never is.\<close>

inductive session :: "client \<Rightarrow> bool" where
  loaded: "session (mount stored)"
| submitted: "session s \<Longrightarrow> \<not> isLoading s \<Longrightarrow> session (handleSubmit_send s inputValue)"
| settled: "session s \<Longrightarrow> inflight s \<noteq> None \<Longrightarrow> session (state_of (handleSubmit_settle s r))"
| cleared: "session s \<Longrightarrow> session (clear_chat s)"

text \<open>The sessions in which Clear Chat is not pressed while a request is under way.\<close>

inductive quiet_session :: "client \<Rightarrow> bool" where
  q_loaded: "quiet_session (mount stored)"
| q_submitted: "quiet_session s \<Longrightarrow> \<not> isLoading s \<Longrightarrow> quiet_session (handleSubmit_send s inputValue)"
| q_settled: "quiet_session s \<Longrightarrow> inflight s \<noteq> None \<Longrightarrow> quiet_session (state_of (handleSubmit_settle s r))"
| q_cleared: "quiet_session s \<Longrightarrow> \<not> isLoading s \<Longrightarrow> quiet_session (clear_chat s)"

text \<open>The history a request body carries.\<close>

definition sent_history :: "json \<Rightarrow> json list" where
  "sent_history body = (case get_prop body ''history'' of JArr xs \<Rightarrow> xs | _ \<Rightarrow> [])"

text \<open>The whole of \<^verbatim>\<open>handleSubmit\<close> when nothing else happens while the request is
  under way: an input that trims to nothing returns at once.\<close>

definition handleSubmit :: "client \<Rightarrow> string \<Rightarrow> fetch_result \<Rightarrow> completion" where
  "handleSubmit s inputValue r =
     (if trim inputValue = [] then Normal s
      else handleSubmit_settle (handleSubmit_send s inputValue) r)"

text \<open>What holds of the state between the events of a session without a clearing in
  mid-request.\<close>

definition turn_invariant :: "client \<Rightarrow> bool" where
  "turn_invariant s =
     (storage s = Some (messages s) \<and>
      (isLoading s \<longleftrightarrow> inflight s \<noteq> None) \<and>
      (case inflight s of
         None \<Rightarrow> True
       | Some body \<Rightarrow>
           \<exists>u before. body = request_body u (map history_entry before) \<and>
                      messages s = before @ [\<lparr>msg_sender = ''user'', msg_text = JStr u\<rparr>]))"

section \<open>The specification's wording\<close>

text \<open>The last \<open>n\<close> entries of a list, in their order.\<close>

definition last_entries :: "nat \<Rightarrow> 'a list \<Rightarrow> 'a list" where
  "last_entries n xs = rev (take n (rev xs))"

text \<open>A history entry as the specification wants it: an object with a role among
  \<^verbatim>\<open>user\<close> and \<^verbatim>\<open>model\<close> and a text that is a string with a character other
  than white space.\<close>

definition spec_entry_ok :: "json \<Rightarrow> bool" where
  "spec_entry_ok x =
     (case x of
        JObj kvs \<Rightarrow>
          (case (map_of kvs ''role'', map_of kvs ''text'') of
             (Some (JStr r), Some (JStr t)) \<Rightarrow>
               (r = ''user'' \<or> r = ''model'') \<and> (\<exists>c\<in>set t. \<not> is_ws c)
           | _ \<Rightarrow> False)
      | _ \<Rightarrow> False)"

section \<open>Sample requests\<close>

definition entry :: "string \<Rightarrow> string \<Rightarrow> json" where
  "entry r t = JObj [(''role'', JStr r), (''text'', JStr t)]"

definition three_turns :: "json list" where
  "three_turns = [entry ''user'' ''a'', entry ''model'' ''b'', entry ''user'' ''c'']"

definition chat_body :: "string \<Rightarrow> json list \<Rightarrow> int \<Rightarrow> json" where
  "chat_body m hs n = JObj [(''message'', JStr m), (''history'', JArr hs), (''historyLimit'', JNum n)]"

definition answering :: upstream where
  "answering call = Returns (JStr ''ok'')"

definition failing :: "string \<Rightarrow> upstream" where
  "failing m call = Throws (JStr m)"

definition hi_call :: api_call where
  "hi_call = ChatSend \<lparr>chat_model = model, chat_history = [], chat_message = JStr ''Hi''\<rparr>"

definition one_upload :: file_request where
  "one_upload = \<lparr>req_body = JObj [], req_file = Some \<lparr>path = ''uploads/f1'', mimetype = JStr ''image/png''\<rparr>\<rparr>"

definition first_turn :: client where
  "first_turn = handleSubmit_send (mount None) ''a''"

definition second_turn :: client where
  "second_turn =
     handleSubmit_send
       (state_of (handleSubmit_settle first_turn (Response True (Some (JObj [(''output'', JStr ''r'')])))))
       ''b''"

section \<open>Facts about the JavaScript operations\<close>

lemma trim_empty_iff: "trim s = [] \<longleftrightarrow> (\<forall>c\<in>set s. is_ws c)"
proof
  assume "trim s = []"
  then have "dropWhile is_ws (rev (dropWhile is_ws s)) = []"
    by (simp add: trim_def)
  then have all: "\<forall>c\<in>set (dropWhile is_ws s). is_ws c"
    by (simp add: dropWhile_eq_Nil_conv)
  have "dropWhile is_ws s = []"
  proof (rule ccontr)
    assume ne: "dropWhile is_ws s \<noteq> []"
    then have "\<not> is_ws (hd (dropWhile is_ws s))" by (rule hd_dropWhile)
    moreover have "hd (dropWhile is_ws s) \<in> set (dropWhile is_ws s)" using ne by simp
    ultimately show False using all by blast
  qed
  then show "\<forall>c\<in>set s. is_ws c" by (simp add: dropWhile_eq_Nil_conv)
next
  assume "\<forall>c\<in>set s. is_ws c"
  then have d: "dropWhile is_ws s = []" by (simp add: dropWhile_eq_Nil_conv)
  show "trim s = []" unfolding trim_def d by simp
qed

lemma valid_entry_iff: "valid_entry x \<longleftrightarrow> spec_entry_ok x"
  by (cases x)
     (auto simp: valid_entry_def spec_entry_ok_def trim_empty_iff
           split: option.splits json.splits)

lemma slice_neg_short: "0 \<le> n \<Longrightarrow> int (length xs) \<le> n \<Longrightarrow> slice (- n) xs = xs"
  by (simp add: slice_def Let_def)

lemma slice_neg_long:
  "0 < n \<Longrightarrow> n < int (length xs) \<Longrightarrow> slice (- n) xs = last_entries (nat n) xs"
  by (simp add: slice_def Let_def last_entries_def rev_take nat_diff_distrib' max_def)

lemma suffix_slice: "suffix (slice start xs) xs"
  by (simp add: slice_def Let_def suffix_drop)

lemma get_prop_nullish: "nullish body \<Longrightarrow> get_prop body name = JUndefined"
  by (cases body) simp_all

lemma sample_entries_valid: "list_all valid_entry three_turns"
  by (simp add: three_turns_def entry_def valid_entry_def trim_def is_ws_def)

lemma sample_message_ok: "nonblank_string (get_prop (chat_body ''Hi'' hs n) ''message'')"
  by (simp add: chat_body_def trim_def is_ws_def)

section \<open>The chat endpoint\<close>

text \<open>A request that passes both checks makes one call and relays its outcome.\<close>

lemma chat_accepts:
  assumes msg: "nonblank_string (get_prop body ''message'')"
    and hist: "with_default (get_prop body ''history'') (JArr []) = JArr hs"
    and ok: "list_all valid_entry hs"
    and lim: "neg_limit (with_default (get_prop body ''historyLimit'') (JNum 10)) = Some start"
  shows "chat api body =
         Some (let call = ChatSend \<lparr>chat_model = model, chat_history = map formatted (slice start hs),
                                    chat_message = get_prop body ''message''\<rparr>
               in [Call call,
                   (case api call of
                      Returns t \<Rightarrow> Send 200 (output_body t)
                    | Throws m \<Rightarrow> Send 500 (error_body (js_or m (JStr ''Internal Server Error''))))])"
proof -
  have "\<not> nullish body" using msg get_prop_nullish by fastforce
  then show ?thesis
    using msg hist ok lim by (simp add: chat_def Let_def isValidHistory_def)
qed

lemma formatted_fun:
  "formatted = (\<lambda>m. \<lparr>role = get_prop m ''role'', parts = [TextPart (get_prop m ''text'')]\<rparr>)"
  by (rule ext) (simp add: formatted_def)

text \<open>
  Claim C1. For a valid history list and a positive history limit \<open>n\<close> (10 when the
  request gives none), the handler makes one call of the external API, and the history
  of that call is the whole history when it has at most \<open>n\<close> entries and its last
  \<open>n\<close> entries, in their order, when it has more: entry by entry, the role is the
  role of the history entry and the one part is its text.
\<close>

theorem chat_history_window:
  assumes "nonblank_string (get_prop body ''message'')"
    and "get_prop body ''history'' = JArr hs"
    and "list_all valid_entry hs"
    and "with_default (get_prop body ''historyLimit'') (JNum 10) = JNum n"
    and "0 < n"
  shows "\<exists>es resp.
           chat api body = Some es \<and>
           es = [Call (ChatSend
                   \<lparr>chat_model = ''gemini-2.0-flash'',
                    chat_history =
                      map (\<lambda>m. \<lparr>role = get_prop m ''role'', parts = [TextPart (get_prop m ''text'')]\<rparr>)
                        (if int (length hs) \<le> n then hs else last_entries (nat n) hs),
                    chat_message = get_prop body ''message''\<rparr>), resp] \<and>
           forwarded es =
             Some (map (\<lambda>m. \<lparr>role = get_prop m ''role'', parts = [TextPart (get_prop m ''text'')]\<rparr>)
                     (if int (length hs) \<le> n then hs else last_entries (nat n) hs))"
proof -
  have h: "with_default (get_prop body ''history'') (JArr []) = JArr hs"
    using assms(2) by (simp add: with_default_def)
  have l: "neg_limit (with_default (get_prop body ''historyLimit'') (JNum 10)) = Some (- n)"
    using assms(4) by simp
  have s: "slice (- n) hs = (if int (length hs) \<le> n then hs else last_entries (nat n) hs)"
    using assms(5) by (simp add: slice_neg_short slice_neg_long)
  show ?thesis
    unfolding chat_accepts [OF assms(1) h assms(3) l] formatted_fun
    by (simp add: Let_def s model_def)
qed

theorem chat_history_window_witness:
  "nonblank_string (get_prop (chat_body ''Hi'' three_turns 2) ''message'') \<and>
   list_all valid_entry three_turns \<and>
   (\<exists>es. chat answering (chat_body ''Hi'' three_turns 2) = Some es \<and>
      forwarded es =
        Some [\<lparr>role = JStr ''model'', parts = [TextPart (JStr ''b'')]\<rparr>,
              \<lparr>role = JStr ''user'', parts = [TextPart (JStr ''c'')]\<rparr>]) \<and>
   (\<exists>es. chat answering (JObj [(''message'', JStr ''Hi''), (''history'', JArr three_turns)]) = Some es \<and>
      forwarded es =
        Some [\<lparr>role = JStr ''user'', parts = [TextPart (JStr ''a'')]\<rparr>,
              \<lparr>role = JStr ''model'', parts = [TextPart (JStr ''b'')]\<rparr>,
              \<lparr>role = JStr ''user'', parts = [TextPart (JStr ''c'')]\<rparr>])"
proof -
  let ?b = "chat_body ''Hi'' three_turns 2"
  let ?c = "JObj [(''message'', JStr ''Hi''), (''history'', JArr three_turns)]"
  have b2: "get_prop ?b ''history'' = JArr three_turns" by (simp add: chat_body_def)
  have b4: "with_default (get_prop ?b ''historyLimit'') (JNum 10) = JNum 2"
    by (simp add: chat_body_def with_default_def)
  have c1: "nonblank_string (get_prop ?c ''message'')" by (simp add: trim_def is_ws_def)
  have c2: "get_prop ?c ''history'' = JArr three_turns" by simp
  have c4: "with_default (get_prop ?c ''historyLimit'') (JNum 10) = JNum 10"
    by (simp add: with_default_def)
  have w: "last_entries 2 three_turns = [entry ''model'' ''b'', entry ''user'' ''c'']"
    by (simp add: last_entries_def three_turns_def)
  have len: "length three_turns = 3" by (simp add: three_turns_def)
  from chat_history_window [OF sample_message_ok b2 sample_entries_valid b4, of answering]
  have long: "\<exists>es. chat answering ?b = Some es \<and>
      forwarded es =
        Some [\<lparr>role = JStr ''model'', parts = [TextPart (JStr ''b'')]\<rparr>,
              \<lparr>role = JStr ''user'', parts = [TextPart (JStr ''c'')]\<rparr>]"
    by (auto simp: len w entry_def)
  from chat_history_window [OF c1 c2 sample_entries_valid c4, of answering]
  have short: "\<exists>es. chat answering ?c = Some es \<and>
      forwarded es =
        Some [\<lparr>role = JStr ''user'', parts = [TextPart (JStr ''a'')]\<rparr>,
              \<lparr>role = JStr ''model'', parts = [TextPart (JStr ''b'')]\<rparr>,
              \<lparr>role = JStr ''user'', parts = [TextPart (JStr ''c'')]\<rparr>]"
    by (auto simp: len three_turns_def entry_def)
  from long short show ?thesis
    using sample_message_ok sample_entries_valid by blast
qed

text \<open>
  Claim C10. With \<^verbatim>\<open>historyLimit\<close> equal to 0 and a valid history that is not
  empty, the whole history is forwarded to the external API (\<^verbatim>\<open>slice(-0)\<close> is
  \<^verbatim>\<open>slice(0)\<close>), not an empty one: the call carries one content for every entry of
  the history, in order, with the role and the text of that entry.
\<close>

theorem chat_limit_zero:
  assumes "nonblank_string (get_prop body ''message'')"
    and "get_prop body ''history'' = JArr hs"
    and "hs \<noteq> []"
    and "list_all valid_entry hs"
    and "get_prop body ''historyLimit'' = JNum 0"
  shows "\<exists>es resp fwd.
           chat api body = Some es \<and>
           es = [Call (ChatSend \<lparr>chat_model = ''gemini-2.0-flash'', chat_history = fwd,
                                  chat_message = get_prop body ''message''\<rparr>), resp] \<and>
           forwarded es = Some fwd \<and>
           fwd = map (\<lambda>m. \<lparr>role = get_prop m ''role'', parts = [TextPart (get_prop m ''text'')]\<rparr>) hs \<and>
           length fwd = length hs \<and> fwd \<noteq> []"
proof -
  have h: "with_default (get_prop body ''history'') (JArr []) = JArr hs"
    using assms(2) by (simp add: with_default_def)
  have l: "neg_limit (with_default (get_prop body ''historyLimit'') (JNum 10)) = Some 0"
    using assms(5) by (simp add: with_default_def)
  have s: "slice 0 hs = hs" by (simp add: slice_def)
  show ?thesis
    unfolding chat_accepts [OF assms(1) h assms(4) l] formatted_fun
    using assms(3) by (simp add: Let_def s model_def)
qed

theorem chat_limit_zero_witness:
  "nonblank_string (get_prop (chat_body ''Hi'' three_turns 0) ''message'') \<and>
   three_turns \<noteq> [] \<and> list_all valid_entry three_turns \<and>
   (\<exists>es. chat answering (chat_body ''Hi'' three_turns 0) = Some es \<and>
      forwarded es =
        Some [\<lparr>role = JStr ''user'', parts = [TextPart (JStr ''a'')]\<rparr>,
              \<lparr>role = JStr ''model'', parts = [TextPart (JStr ''b'')]\<rparr>,
              \<lparr>role = JStr ''user'', parts = [TextPart (JStr ''c'')]\<rparr>])"
proof -
  let ?b = "chat_body ''Hi'' three_turns 0"
  have b2: "get_prop ?b ''history'' = JArr three_turns" by (simp add: chat_body_def)
  have b3: "three_turns \<noteq> []" by (simp add: three_turns_def)
  have b5: "get_prop ?b ''historyLimit'' = JNum 0" by (simp add: chat_body_def)
  from chat_limit_zero [OF sample_message_ok b2 b3 sample_entries_valid b5, of answering]
  have "\<exists>es. chat answering ?b = Some es \<and>
      forwarded es =
        Some [\<lparr>role = JStr ''user'', parts = [TextPart (JStr ''a'')]\<rparr>,
              \<lparr>role = JStr ''model'', parts = [TextPart (JStr ''b'')]\<rparr>,
              \<lparr>role = JStr ''user'', parts = [TextPart (JStr ''c'')]\<rparr>]"
    by (auto simp: three_turns_def entry_def)
  then show ?thesis
    using sample_message_ok sample_entries_valid b3 by blast
qed

text \<open>
  On a parsed body the two text endpoints reject a missing input: a request to POST
  /generate-text whose prompt is missing or empty, and a request to POST /chat whose
  message is missing, empty or made of white space only, is answered with status 400 and
  an error message, and the response is all the handler does.
\<close>

lemma parsed_body_input_rejected:
  "(get_prop body ''prompt'' = JUndefined \<or> get_prop body ''prompt'' = JStr [] \<longrightarrow>
      generate_text api body =
        [Send 400 (JObj [(''error'', JStr (if truthy body then ''Prompt is required''
                                           else ''No body provided''))])]) \<and>
   (\<not> nullish body \<and>
    (get_prop body ''message'' = JUndefined \<or>
     (\<exists>s. get_prop body ''message'' = JStr s \<and> (\<forall>c\<in>set s. is_ws c))) \<longrightarrow>
      chat api body =
        Some [Send 400 (JObj [(''error'',
                JStr ''Message is required and must be a non-empty string.'')])])"
proof (intro conjI impI)
  assume "get_prop body ''prompt'' = JUndefined \<or> get_prop body ''prompt'' = JStr []"
  then have "\<not> truthy (get_prop body ''prompt'')" by auto
  then show "generate_text api body =
        [Send 400 (JObj [(''error'', JStr (if truthy body then ''Prompt is required''
                                           else ''No body provided''))])]"
    by (simp add: generate_text_def error_body_def)
next
  assume a: "\<not> nullish body \<and>
    (get_prop body ''message'' = JUndefined \<or>
     (\<exists>s. get_prop body ''message'' = JStr s \<and> (\<forall>c\<in>set s. is_ws c)))"
  then have "\<not> nonblank_string (get_prop body ''message'')"
    by (auto simp: trim_empty_iff)
  with a show "chat api body =
        Some [Send 400 (JObj [(''error'',
                JStr ''Message is required and must be a non-empty string.'')])]"
    by (simp add: chat_def Let_def error_body_def)
qed

lemma parsed_body_input_rejected_sample:
  "generate_text answering (JObj []) = [Send 400 (JObj [(''error'', JStr ''Prompt is required'')])] \<and>
   generate_text answering (JObj [(''prompt'', JStr [])]) =
     [Send 400 (JObj [(''error'', JStr ''Prompt is required'')])] \<and>
   chat answering (JObj []) =
     Some [Send 400 (JObj [(''error'', JStr ''Message is required and must be a non-empty string.'')])] \<and>
   chat answering (JObj [(''message'', JStr ''  '')]) =
     Some [Send 400 (JObj [(''error'', JStr ''Message is required and must be a non-empty string.'')])]"
  using parsed_body_input_rejected [of "JObj []" answering]
    parsed_body_input_rejected [of "JObj [(''prompt'', JStr [])]" answering]
    parsed_body_input_rejected [of "JObj [(''message'', JStr ''  '')]" answering]
  by (simp add: is_ws_def)

text \<open>
  Claim C2 says that a request to POST /chat or POST /generate-text whose message or
  prompt is missing is answered with status 400 and that the external API is not
  called. A request that comes without a parsed body has no message and no prompt.
  POST /generate-text tests \<^verbatim>\<open>!req.body\<close> first and answers 400; POST /chat
  destructures \<^verbatim>\<open>req.body\<close> without that test, throws before any of its checks
  and sends no response of its own. Neither calls the external API.
\<close>

theorem chat_without_body_throws:
  "generate_text api JUndefined = [Send 400 (JObj [(''error'', JStr ''No body provided'')])] \<and>
   chat api JUndefined = Some [Uncaught TypeError] \<and>
   chat api JUndefined \<noteq>
     Some [Send 400 (JObj [(''error'', JStr ''Message is required and must be a non-empty string.'')])]"
  by (simp add: generate_text_def chat_def error_body_def)

text \<open>
  Claim C3. A request to POST /chat whose history is a list with an entry that is not an
  object with a role among \<^verbatim>\<open>user\<close> and \<^verbatim>\<open>model\<close> and a text that is a string
  with a character other than white space is answered with status 400 as a whole; the
  response is all the handler does, so the external API is not called. When the message
  itself is in order the answer is the one about the history.
\<close>

theorem malformed_history_rejected:
  assumes "get_prop body ''history'' = JArr hs"
    and "x \<in> set hs"
    and "\<not> spec_entry_ok x"
  shows "(\<exists>m. chat api body = Some [Send 400 (JObj [(''error'', JStr m)])]) \<and>
         (nonblank_string (get_prop body ''message'') \<longrightarrow>
            chat api body = Some [Send 400 (JObj [(''error'', JStr invalid_history_text)])])"
proof -
  have nn: "\<not> nullish body" using assms(1) get_prop_nullish by fastforce
  have h: "with_default (get_prop body ''history'') (JArr []) = JArr hs"
    using assms(1) by (simp add: with_default_def)
  have bad: "\<not> list_all valid_entry hs"
    using assms(2,3) by (auto simp: list_all_iff valid_entry_iff)
  have ne: "0 < length hs" using assms(2) by (cases hs) auto
  show ?thesis
  proof (cases "nonblank_string (get_prop body ''message'')")
    case True
    then have "chat api body = Some [Send 400 (JObj [(''error'', JStr invalid_history_text)])]"
      using nn h bad ne by (simp add: chat_def Let_def isValidHistory_def error_body_def)
    then show ?thesis by blast
  next
    case False
    then have "chat api body =
        Some [Send 400 (JObj [(''error'', JStr ''Message is required and must be a non-empty string.'')])]"
      using nn by (simp add: chat_def Let_def error_body_def)
    with False show ?thesis by blast
  qed
qed

theorem malformed_history_rejected_witness:
  "entry ''system'' ''x'' \<in> set [entry ''user'' ''a'', entry ''system'' ''x''] \<and>
   \<not> spec_entry_ok (entry ''system'' ''x'') \<and>
   chat answering (chat_body ''Hi'' [entry ''user'' ''a'', entry ''system'' ''x''] 10) =
     Some [Send 400 (JObj [(''error'', JStr invalid_history_text)])]"
proof -
  let ?hs = "[entry ''user'' ''a'', entry ''system'' ''x'']"
  have a1: "get_prop (chat_body ''Hi'' ?hs 10) ''history'' = JArr ?hs" by (simp add: chat_body_def)
  have a2: "entry ''system'' ''x'' \<in> set ?hs" by simp
  have a3: "\<not> spec_entry_ok (entry ''system'' ''x'')" by (simp add: spec_entry_ok_def entry_def)
  from malformed_history_rejected [OF a1 a2 a3, of answering] sample_message_ok
  have "chat answering (chat_body ''Hi'' ?hs 10) = Some [Send 400 (JObj [(''error'', JStr invalid_history_text)])]"
    by blast
  with a2 a3 show ?thesis by blast
qed

text \<open>
  Claim C6, as the code has it. For a valid request to POST /chat (a message that is a
  string with a character other than white space, a history that is absent or a list of
  valid entries, a limit that is absent or an integer): when the external call succeeds
  the response is status 200 with body \<^verbatim>\<open>{ output }\<close> holding the text of the
  result; when it throws, the response is status 500 with body \<^verbatim>\<open>{ error }\<close>
  holding the message of the error if that is truthy, and the text
  \<^verbatim>\<open>Internal Server Error\<close> if it is not.
\<close>

theorem chat_relays_outcome:
  assumes "nonblank_string (get_prop body ''message'')"
    and "with_default (get_prop body ''history'') (JArr []) = JArr hs"
    and "list_all valid_entry hs"
    and "with_default (get_prop body ''historyLimit'') (JNum 10) = JNum n"
    and "call = ChatSend
           \<lparr>chat_model = ''gemini-2.0-flash'',
            chat_history =
              map (\<lambda>m. \<lparr>role = get_prop m ''role'', parts = [TextPart (get_prop m ''text'')]\<rparr>)
                (slice (- n) hs),
            chat_message = get_prop body ''message''\<rparr>"
  shows "chat api body =
           Some [Call call,
                 (case api call of
                    Returns t \<Rightarrow> Send 200 (JObj [(''output'', t)])
                  | Throws m \<Rightarrow>
                      Send 500 (JObj [(''error'',
                        if truthy m then m else JStr ''Internal Server Error'')]))]"
proof -
  have l: "neg_limit (with_default (get_prop body ''historyLimit'') (JNum 10)) = Some (- n)"
    using assms(4) by simp
  show ?thesis
    unfolding chat_accepts [OF assms(1) assms(2) assms(3) l] assms(5) formatted_fun
    by (simp add: Let_def js_or_def output_body_def error_body_def model_def
          split: api_result.splits)
qed

theorem chat_relays_outcome_witness:
  "nonblank_string (get_prop (chat_body ''Hi'' [] 10) ''message'') \<and>
   chat answering (chat_body ''Hi'' [] 10) =
     Some [Call (ChatSend \<lparr>chat_model = ''gemini-2.0-flash'', chat_history = [],
                            chat_message = JStr ''Hi''\<rparr>),
           Send 200 (JObj [(''output'', JStr ''ok'')])] \<and>
   chat (failing ''quota exceeded'') (chat_body ''Hi'' [] 10) =
     Some [Call (ChatSend \<lparr>chat_model = ''gemini-2.0-flash'', chat_history = [],
                            chat_message = JStr ''Hi''\<rparr>),
           Send 500 (JObj [(''error'', JStr ''quota exceeded'')])]"
proof -
  let ?b = "chat_body ''Hi'' [] 10"
  let ?call = "ChatSend \<lparr>chat_model = ''gemini-2.0-flash'', chat_history = [],
                          chat_message = JStr ''Hi''\<rparr>"
  have a2: "with_default (get_prop ?b ''history'') (JArr []) = JArr []"
    by (simp add: chat_body_def with_default_def)
  have a3: "list_all valid_entry []" by simp
  have a4: "with_default (get_prop ?b ''historyLimit'') (JNum 10) = JNum 10"
    by (simp add: chat_body_def with_default_def)
  have a5: "?call = ChatSend
           \<lparr>chat_model = ''gemini-2.0-flash'',
            chat_history =
              map (\<lambda>m. \<lparr>role = get_prop m ''role'', parts = [TextPart (get_prop m ''text'')]\<rparr>)
                (slice (- 10) []),
            chat_message = get_prop ?b ''message''\<rparr>"
    by (simp add: chat_body_def slice_def)
  from chat_relays_outcome [OF sample_message_ok a2 a3 a4 a5, of answering]
  have ok: "chat answering ?b = Some [Call ?call, Send 200 (JObj [(''output'', JStr ''ok'')])]"
    by (simp add: answering_def)
  from chat_relays_outcome [OF sample_message_ok a2 a3 a4 a5, of "failing ''quota exceeded''"]
  have ko: "chat (failing ''quota exceeded'') ?b =
      Some [Call ?call, Send 500 (JObj [(''error'', JStr ''quota exceeded'')])]"
    by (simp add: failing_def)
  from ok ko show ?thesis using sample_message_ok by blast
qed

text \<open>The claim as the specification words it fails where the error thrown by the
  external call has an empty message: the example request of the specification is then
  answered with \<^verbatim>\<open>Internal Server Error\<close>, not with the empty message.\<close>

theorem chat_empty_error_not_relayed:
  "failing [] hi_call = Throws (JStr []) \<and>
   hi_call = ChatSend \<lparr>chat_model = ''gemini-2.0-flash'', chat_history = [],
                        chat_message = JStr ''Hi''\<rparr> \<and>
   chat (failing []) (chat_body ''Hi'' [] 10) =
     Some [Call hi_call, Send 500 (JObj [(''error'', JStr ''Internal Server Error'')])] \<and>
   chat (failing []) (chat_body ''Hi'' [] 10) \<noteq>
     Some [Call hi_call, Send 500 (JObj [(''error'', JStr [])])]"
  by (simp add: chat_def chat_body_def with_default_def isValidHistory_def trim_def is_ws_def
        slice_def hi_call_def failing_def js_or_def error_body_def model_def)

section \<open>The attachment endpoints\<close>

text \<open>
  Claim C4 says that an attachment request without a file is answered with status 400
  and a descriptive message. The three handlers read \<^verbatim>\<open>req.file.path\<close> before they
  test \<^verbatim>\<open>!req.file\<close>: without a file each of them throws outside its
  \<^verbatim>\<open>try\<close>, touches no file and sends no response of its own.
\<close>

theorem missing_file_throws:
  "generate_from_image api fs \<lparr>req_body = b, req_file = None\<rparr> = ([Uncaught TypeError], fs) \<and>
   generate_from_document api fs \<lparr>req_body = b, req_file = None\<rparr> = ([Uncaught TypeError], fs) \<and>
   generate_from_audio api fs \<lparr>req_body = b, req_file = None\<rparr> = ([Uncaught TypeError], fs) \<and>
   \<not> list_ex is_send_400 (fst (generate_from_image api fs \<lparr>req_body = b, req_file = None\<rparr>)) \<and>
   \<not> list_ex is_send_400 (fst (generate_from_document api fs \<lparr>req_body = b, req_file = None\<rparr>)) \<and>
   \<not> list_ex is_send_400 (fst (generate_from_audio api fs \<lparr>req_body = b, req_file = None\<rparr>))"
  by (simp add: generate_from_image_def generate_from_document_def generate_from_audio_def
        generate_from_file_def)

lemma generate_from_file_deletes:
  assumes "\<not> nullish (req_body req)"
    and "req_file req = Some f"
    and "fs (path f) = Some buffer"
  shows "\<exists>call status payload.
           generate_from_file dp dm nf api fs req =
             ([FsRead (path f), FsUnlink (path f), Call call, Send status payload],
              fs(path f := None)) \<and>
           (status = 200 \<or> status = 500)"
  using assms
  by (cases "api (GenerateContent \<lparr>gen_model = model, gen_temperature = None,
         gen_contents = [TextPart (js_or (get_prop (req_body req) ''prompt'') (JStr dp)),
                         InlinePart (Base64 buffer) (js_or (mimetype f) (JStr dm))]\<rparr>)")
     (simp_all add: generate_from_file_def deleteUploadedFile_def Let_def)

text \<open>
  Claim C5. For an attachment request with a file (stored by the upload middleware
  under \<^verbatim>\<open>req.file.path\<close>, the form fields parsed into \<^verbatim>\<open>req.body\<close>), each
  of the three handlers reads the file, deletes it at once, and only then calls the
  external API and sends the response, status 200 or 500: the file is gone whatever the
  external call does.
\<close>

theorem upload_deleted_after_read:
  assumes "\<not> nullish (req_body req)"
    and "req_file req = Some f"
    and "fs (path f) = Some buffer"
  shows "(\<exists>call status payload.
            generate_from_image api fs req =
              ([FsRead (path f), FsUnlink (path f), Call call, Send status payload],
               fs(path f := None)) \<and> (status = 200 \<or> status = 500)) \<and>
         (\<exists>call status payload.
            generate_from_document api fs req =
              ([FsRead (path f), FsUnlink (path f), Call call, Send status payload],
               fs(path f := None)) \<and> (status = 200 \<or> status = 500)) \<and>
         (\<exists>call status payload.
            generate_from_audio api fs req =
              ([FsRead (path f), FsUnlink (path f), Call call, Send status payload],
               fs(path f := None)) \<and> (status = 200 \<or> status = 500))"
  unfolding generate_from_image_def generate_from_document_def generate_from_audio_def
  using generate_from_file_deletes [where fs = fs and req = req and f = f, OF assms]
  by blast

theorem upload_deleted_after_read_witness:
  "\<not> nullish (req_body one_upload) \<and>
   [''uploads/f1'' \<mapsto> ''data''] ''uploads/f1'' = Some ''data'' \<and>
   (\<exists>call status payload.
      generate_from_image (failing ''down'') [''uploads/f1'' \<mapsto> ''data''] one_upload =
        ([FsRead ''uploads/f1'', FsUnlink ''uploads/f1'', Call call, Send status payload],
         Map.empty))"
proof -
  let ?f = "\<lparr>path = ''uploads/f1'', mimetype = JStr ''image/png''\<rparr>"
  have a1: "\<not> nullish (req_body one_upload)" by (simp add: one_upload_def)
  have a2: "req_file one_upload = Some ?f" by (simp add: one_upload_def)
  have a3: "[''uploads/f1'' \<mapsto> ''data''] (path ?f) = Some ''data''" by simp
  have e: "[''uploads/f1'' \<mapsto> ''data''](path ?f := None) = Map.empty" by simp
  from upload_deleted_after_read
         [where fs = "[''uploads/f1'' \<mapsto> ''data'']" and req = one_upload and f = ?f
            and api = "failing ''down''", OF a1 a2 a3]
  have "\<exists>call status payload.
      generate_from_image (failing ''down'') [''uploads/f1'' \<mapsto> ''data''] one_upload =
        ([FsRead ''uploads/f1'', FsUnlink ''uploads/f1'', Call call, Send status payload],
         Map.empty)"
    unfolding e by auto
  with a1 show ?thesis by simp
qed

section \<open>The chat client\<close>

lemma settle_state:
  "\<exists>m. state_of (handleSubmit_settle s r) =
         (append_message s m)\<lparr>isLoading := False, inflight := None\<rparr>"
  by (cases r) (auto simp: handleSubmit_settle_def try_block_def Let_def split: option.splits)

lemma settle_idle: "\<not> isLoading (state_of (handleSubmit_settle s r))"
proof -
  obtain m where "state_of (handleSubmit_settle s r) =
         (append_message s m)\<lparr>isLoading := False, inflight := None\<rparr>"
    using settle_state by blast
  then show ?thesis by simp
qed

lemma turn_invariant_mount: "turn_invariant (mount stored)"
  by (cases stored) (simp_all add: turn_invariant_def mount_def save_effect_def Let_def)

lemma turn_invariant_send:
  "turn_invariant s \<Longrightarrow> \<not> isLoading s \<Longrightarrow> turn_invariant (handleSubmit_send s v)"
  by (auto simp: turn_invariant_def handleSubmit_send_def save_effect_def Let_def)

lemma turn_invariant_settle: "turn_invariant (state_of (handleSubmit_settle s r))"
proof -
  obtain m where "state_of (handleSubmit_settle s r) =
         (append_message s m)\<lparr>isLoading := False, inflight := None\<rparr>"
    using settle_state by blast
  then show ?thesis
    by (simp add: turn_invariant_def append_message_def save_effect_def)
qed

lemma turn_invariant_clear:
  "turn_invariant s \<Longrightarrow> \<not> isLoading s \<Longrightarrow> turn_invariant (clear_chat s)"
  by (auto simp: turn_invariant_def clear_chat_def save_effect_def)

lemma quiet_session_invariant: "quiet_session s \<Longrightarrow> turn_invariant s"
  by (induction rule: quiet_session.induct)
     (simp_all add: turn_invariant_mount turn_invariant_send turn_invariant_settle
        turn_invariant_clear)

lemma first_turn_state:
  "first_turn =
     \<lparr>messages = [\<lparr>msg_sender = ''user'', msg_text = JStr ''a''\<rparr>], isLoading = True,
      storage = Some [\<lparr>msg_sender = ''user'', msg_text = JStr ''a''\<rparr>],
      inflight = Some (request_body ''a'' [])\<rparr>"
  by (simp add: first_turn_def handleSubmit_send_def mount_def save_effect_def trim_def
        is_ws_def Let_def)

lemma second_turn_state:
  "second_turn =
     \<lparr>messages = [\<lparr>msg_sender = ''user'', msg_text = JStr ''a''\<rparr>,
                  \<lparr>msg_sender = ''model'', msg_text = JStr ''r''\<rparr>,
                  \<lparr>msg_sender = ''user'', msg_text = JStr ''b''\<rparr>],
      isLoading = True,
      storage = Some [\<lparr>msg_sender = ''user'', msg_text = JStr ''a''\<rparr>,
                      \<lparr>msg_sender = ''model'', msg_text = JStr ''r''\<rparr>,
                      \<lparr>msg_sender = ''user'', msg_text = JStr ''b''\<rparr>],
      inflight = Some (request_body ''b'' [entry ''user'' ''a'', entry ''model'' ''r''])\<rparr>"
  by (simp add: second_turn_def first_turn_state handleSubmit_settle_def try_block_def
        append_message_def js_or_def handleSubmit_send_def save_effect_def trim_def is_ws_def
        history_entry_def entry_def Let_def)

text \<open>
  Claim C7, as the code has it. At every point of a client session in which Clear Chat
  is not pressed while a request is under way, the stored history is the displayed one,
  and while a request is under way the displayed history is the history that request
  carries followed by the message just submitted, so it extends the transmitted history
  strictly; whatever the proxy's truncation forwards upstream is a suffix of the
  transmitted history.
\<close>

theorem displayed_extends_transmitted:
  assumes "quiet_session s"
  shows "storage s = Some (messages s) \<and>
         (\<forall>body. inflight s = Some body \<longrightarrow>
            strict_prefix (sent_history body) (map history_entry (messages s)) \<and>
            map history_entry (messages s) =
              sent_history body @ [JObj [(''role'', JStr ''user''), (''text'', get_prop body ''message'')]] \<and>
            (\<forall>start. suffix (slice start (sent_history body)) (sent_history body)))"
proof -
  have inv: "turn_invariant s" using assms by (rule quiet_session_invariant)
  then have st: "storage s = Some (messages s)" by (simp add: turn_invariant_def)
  have "strict_prefix (sent_history body) (map history_entry (messages s)) \<and>
        map history_entry (messages s) =
          sent_history body @ [JObj [(''role'', JStr ''user''), (''text'', get_prop body ''message'')]] \<and>
        (\<forall>start. suffix (slice start (sent_history body)) (sent_history body))"
    if "inflight s = Some body" for body
  proof -
    from inv that obtain u before where
      b: "body = request_body u (map history_entry before)" and
      m: "messages s = before @ [\<lparr>msg_sender = ''user'', msg_text = JStr u\<rparr>]"
      by (auto simp: turn_invariant_def)
    have sh: "sent_history body = map history_entry before"
      by (simp add: b request_body_def sent_history_def)
    have gm: "get_prop body ''message'' = JStr u"
      by (simp add: b request_body_def)
    show ?thesis
      by (simp add: sh gm m history_entry_def suffix_slice strict_prefix_def)
  qed
  with st show ?thesis by blast
qed

theorem displayed_extends_transmitted_witness:
  "quiet_session second_turn \<and>
   inflight second_turn = Some (request_body ''b'' [entry ''user'' ''a'', entry ''model'' ''r'']) \<and>
   storage second_turn = Some (messages second_turn) \<and>
   strict_prefix [entry ''user'' ''a'', entry ''model'' ''r'']
     (map history_entry (messages second_turn))"
proof -
  have q1: "quiet_session first_turn"
    unfolding first_turn_def
    by (rule q_submitted [OF q_loaded]) (simp add: mount_def save_effect_def Let_def)
  have q2: "quiet_session second_turn"
    unfolding second_turn_def
    by (rule q_submitted [OF q_settled [OF q1]])
       (simp_all add: first_turn_state settle_idle)
  have i: "inflight second_turn = Some (request_body ''b'' [entry ''user'' ''a'', entry ''model'' ''r''])"
    by (simp add: second_turn_state)
  have h: "sent_history (request_body ''b'' [entry ''user'' ''a'', entry ''model'' ''r'']) =
             [entry ''user'' ''a'', entry ''model'' ''r'']"
    by (simp add: sent_history_def request_body_def)
  from displayed_extends_transmitted [OF q2] i h
  have "storage second_turn = Some (messages second_turn) \<and>
        strict_prefix [entry ''user'' ''a'', entry ''model'' ''r'']
          (map history_entry (messages second_turn))"
    by fastforce
  with q2 i show ?thesis by blast
qed

text \<open>The claim as the specification words it, for every point of a session, fails
  when Clear Chat is pressed while the second request is under way: nothing is displayed
  any more, and the request carries the two messages of the first turn.\<close>

theorem cleared_in_mid_request:
  "session (clear_chat second_turn) \<and>
   inflight (clear_chat second_turn) =
     Some (request_body ''b'' [entry ''user'' ''a'', entry ''model'' ''r'']) \<and>
   sent_history (request_body ''b'' [entry ''user'' ''a'', entry ''model'' ''r'']) =
     [entry ''user'' ''a'', entry ''model'' ''r''] \<and>
   messages (clear_chat second_turn) = [] \<and>
   \<not> strict_prefix [entry ''user'' ''a'', entry ''model'' ''r'']
       (map history_entry (messages (clear_chat second_turn)))"
proof -
  have s1: "session first_turn"
    unfolding first_turn_def
    by (rule submitted [OF loaded]) (simp add: mount_def save_effect_def Let_def)
  have s2: "session second_turn"
    unfolding second_turn_def
    by (rule submitted [OF settled [OF s1]])
       (simp_all add: first_turn_state settle_idle)
  have s3: "session (clear_chat second_turn)" using s2 by (rule cleared)
  show ?thesis
    using s3 by (simp add: second_turn_state clear_chat_def save_effect_def sent_history_def
        request_body_def)
qed

text \<open>
  Claim C8. The Clear Chat action leaves no message in memory and none in the
  local-storage entry (it removes the entry, and the effect of the render that follows
  saves the empty list), so that loading the page again shows an empty conversation.
\<close>

theorem clear_chat_empties:
  "messages (clear_chat s) = [] \<and> storage (clear_chat s) = Some [] \<and>
   messages (mount (storage (clear_chat s))) = []"
  by (simp add: clear_chat_def save_effect_def mount_def Let_def)

text \<open>
  Claim C9. When the request of a submission fails (the fetch rejects, or the response
  is not OK), \<^verbatim>\<open>handleSubmit\<close> ends normally, not by throwing; the history is the
  one before the submission with the user's message and then the one placeholder reply,
  a model message, appended (and stored); and \<^verbatim>\<open>isLoading\<close> is false again, which
  enables the input.
\<close>

theorem failed_request_placeholder:
  assumes "r = NetworkError \<or> r = Response False parsed"
    and "trim inputValue \<noteq> []"
  shows "\<exists>s'. handleSubmit s inputValue r = Normal s' \<and>
           messages s' =
             messages s @ [\<lparr>msg_sender = ''user'', msg_text = JStr (trim inputValue)\<rparr>, placeholder] \<and>
           placeholder =
             \<lparr>msg_sender = ''model'', msg_text = JStr ''Failed to fetch response. Please try again.''\<rparr> \<and>
           storage s' = Some (messages s') \<and>
           \<not> isLoading s'"
  using assms
  by (auto simp: handleSubmit_def handleSubmit_settle_def handleSubmit_send_def try_block_def
        append_message_def save_effect_def placeholder_def Let_def)

theorem failed_request_placeholder_witness:
  "trim '' hello '' \<noteq> [] \<and>
   (\<exists>s'. handleSubmit (mount None) '' hello '' (Response False None) = Normal s' \<and>
      messages s' = [\<lparr>msg_sender = ''user'', msg_text = JStr ''hello''\<rparr>, placeholder] \<and>
      \<not> isLoading s') \<and>
   (\<exists>s'. handleSubmit (mount None) '' hello '' NetworkError = Normal s' \<and>
      messages s' = [\<lparr>msg_sender = ''user'', msg_text = JStr ''hello''\<rparr>, placeholder] \<and>
      \<not> isLoading s')"
proof -
  have t: "trim '' hello '' = ''hello''" by (simp add: trim_def is_ws_def)
  have ne: "trim '' hello '' \<noteq> []" by (simp add: t)
  have m: "messages (mount None) = []" by (simp add: mount_def save_effect_def Let_def)
  have a: "Response False None = NetworkError \<or> Response False None = Response False None"
    by simp
  have b: "NetworkError = NetworkError \<or> NetworkError = Response False None" by simp
  from failed_request_placeholder [OF a ne, of "mount None"]
  have w1: "\<exists>s'. handleSubmit (mount None) '' hello '' (Response False None) = Normal s' \<and>
      messages s' = [\<lparr>msg_sender = ''user'', msg_text = JStr ''hello''\<rparr>, placeholder] \<and>
      \<not> isLoading s'"
    unfolding t m by auto
  from failed_request_placeholder [OF b ne, of "mount None"]
  have w2: "\<exists>s'. handleSubmit (mount None) '' hello '' NetworkError = Normal s' \<and>
      messages s' = [\<lparr>msg_sender = ''user'', msg_text = JStr ''hello''\<rparr>, placeholder] \<and>
      \<not> isLoading s'"
    unfolding t m by auto
  from ne w1 w2 show ?thesis by blast
qed

end
